theory Spec2Isabelle
  imports Complex_Main "HOL-Library.Multiset"
begin

section \<open>Data model\<close>

text \<open>
  Python floats are idealised as \<^typ>\<open>real\<close>; every exception the source can raise is a value
  of \<open>error\<close>, and a function that can raise returns \<open>error + 'a\<close> with \<open>Inl\<close> the exception.
\<close>

datatype error =
    TypeError string
  | ValueError string
  | Exception string
  | UnboundLocalError string
  | NameError string
  | IndexError
  | AttributeError string
  | SectionsNotConnected nat nat

record PileMaterial =
  unitweight :: real

text \<open>\<open>CircularPileSection\<close>: the stored fields, \<open>thickness\<close> after \<open>get_proper_thickness\<close>.\<close>

record CircularPileSection =
  top_elevation :: real
  bottom_elevation :: real
  diameter :: real
  thickness :: real

definition get_area :: "CircularPileSection \<Rightarrow> real" where
  "get_area s = ((diameter s)\<^sup>2 - (diameter s - 2 * thickness s)\<^sup>2) * pi / 4"

definition get_footprint :: "CircularPileSection \<Rightarrow> real" where
  "get_footprint s = (diameter s)\<^sup>2 * pi / 4"

record Pile =
  pile_name :: string
  pile_sections :: "CircularPileSection list"
  material :: PileMaterial

text \<open>The properties of \<open>Pile\<close> that index \<open>pile_sections[-1]\<close> raise IndexError on an empty list.\<close>

definition pile_bottom_elevation :: "Pile \<Rightarrow> error + real" where
  "pile_bottom_elevation p =
     (if pile_sections p = [] then Inl IndexError
      else Inr (bottom_elevation (last (pile_sections p))))"

definition tip_area :: "Pile \<Rightarrow> error + real" where
  "tip_area p =
     (if pile_sections p = [] then Inl IndexError
      else Inr (get_area (last (pile_sections p))))"

definition tip_footprint :: "Pile \<Rightarrow> error + real" where
  "tip_footprint p =
     (if pile_sections p = [] then Inl IndexError
      else Inr (get_footprint (last (pile_sections p))))"

text \<open>
  The constitutive models live in \<open>openpile.soilmodels\<close>, a module of its own: a model
  is the record of the functions and multipliers the code reads from it.
  \<open>unit_shaft_signature\<close> returns the pair of its \<open>"out"\<close> and \<open>"in"\<close> entries.
\<close>

record AxialModel =
  unit_shaft_friction :: "real \<Rightarrow> real \<Rightarrow> real \<Rightarrow> real"
  unit_shaft_signature :: "real \<Rightarrow> real \<Rightarrow> real \<times> real"
  unit_tip_resistance :: "real \<Rightarrow> real \<Rightarrow> real \<Rightarrow> real"
  t_multiplier :: real
  Q_multiplier :: real

record spring_args =
  arg_sig :: real
  arg_X :: real
  arg_layer_height :: real
  arg_depth_from_top_of_layer :: real
  arg_D :: real
  arg_L :: real
  arg_below_water_table :: bool
  arg_output_length :: nat

text \<open>
  A numpy array is its shape and its values in row-major order; an array value is taken
  well formed, with as many values as the product of its shape. The arrays are \<open>float32\<close> in
  the source, real here.
\<close>

record ndarray =
  shape :: "nat list"
  data :: "real list"

text \<open>
  \<open>spring_signature\<close> is read at the indices 0 (p-y), 1 (Hb), 2 (m-t) and 3 (Mb). A spring
  function is taken to return a pair of arrays, of whatever shape.
\<close>

record LateralModel =
  spring_signature :: "bool \<times> bool \<times> bool \<times> bool"
  py_spring_fct :: "spring_args \<Rightarrow> ndarray \<times> ndarray"
  mt_spring_fct :: "spring_args \<Rightarrow> ndarray \<times> ndarray"
  Hb_spring_fct :: "spring_args \<Rightarrow> ndarray \<times> ndarray"
  Mb_spring_fct :: "spring_args \<Rightarrow> ndarray \<times> ndarray"

record Layer =
  layer_name :: string
  layer_top :: real
  layer_bottom :: real
  weight :: real
  lateral_model :: "LateralModel option"
  axial_model :: "AxialModel option"

record SoilProfile =
  soil_name :: string
  soil_top_elevation :: real
  water_line :: real
  layers :: "Layer list"

definition soil_bottom_elevation :: "SoilProfile \<Rightarrow> real" where
  "soil_bottom_elevation soil =
     soil_top_elevation soil - sum_list (map (\<lambda>x. \<bar>layer_top x - layer_bottom x\<bar>) (layers soil))"

subsection \<open>The property tables\<close>

text \<open>
  Modelled from the spec: \<open>get_all_properties\<close> of \<open>openpile.core._model_build\<close> is not among
  the sources. It returns the soil and the structural table, aligned by a shared 0-based
  element index and ordered from pile top to pile bottom: here one list of rows, each the
  pair of the element's soil row and its structural row. The mapper itself is a parameter
  of every function that calls it.
\<close>

record soil_row =
  x_top :: real
  x_bottom :: real
  xg_top :: real
  xg_bottom :: real
  sigma_v_top :: real
  sigma_v_bottom :: real

record elem_row =
  ex_top :: real
  ex_bottom :: real
  Diameter :: real
  Wall_thickness :: real
  Area :: real

type_synonym tables = "(soil_row \<times> elem_row) list"

type_synonym mapper = "Pile \<Rightarrow> SoilProfile option \<Rightarrow> real list option \<Rightarrow> real \<Rightarrow> tables"

section \<open>The axial capacity engine (\<open>calculate.py\<close>)\<close>

definition pile_element_surface ::
  "mapper \<Rightarrow> Pile \<Rightarrow> SoilProfile option \<Rightarrow> real list \<times> real list" where
  "pile_element_surface get_all_properties pile soil =
     (let element_properties = map snd (get_all_properties pile soil None 0.1);
          perimeter_outside = map (\<lambda>e. Diameter e * pi) element_properties;
          perimeter_inside = map (\<lambda>e. (Diameter e - 2 * Wall_thickness e) * pi) element_properties;
          L = map (\<lambda>e. ex_top e - ex_bottom e) element_properties
      in (map (\<lambda>(p, l). p * l) (zip perimeter_outside L),
          map (\<lambda>(p, l). p * l) (zip perimeter_inside L)))"

definition pile_inside_volume :: "mapper \<Rightarrow> Pile \<Rightarrow> SoilProfile option \<Rightarrow> real list" where
  "pile_inside_volume get_all_properties pile soil =
     (let element_properties = map snd (get_all_properties pile soil None 0.1);
          area_inside = map (\<lambda>e. (Diameter e - 2 * Wall_thickness e)\<^sup>2 * pi / 4) element_properties;
          L = map (\<lambda>e. ex_top e - ex_bottom e) element_properties
      in map (\<lambda>(a, l). a * l) (zip area_inside L))"

definition effective_pile_weight :: "mapper \<Rightarrow> Pile \<Rightarrow> SoilProfile option \<Rightarrow> error + real" where
  "effective_pile_weight get_all_properties pile soil =
     (let element_properties = map snd (get_all_properties pile soil None 0.1) in
      case soil of
        Some s \<Rightarrow>
          Inr (sum_list (map (\<lambda>e.
                 let V = (ex_top e - ex_bottom e) * Area e in
                 if ex_bottom e < water_line s then V * (unitweight (material pile) - 10)
                 else V * unitweight (material pile)) element_properties))
      | None \<Rightarrow>
          Inl (Exception ''Model must be linked to a soil profile, use `openpile.construct.Pile.weight instead.`''))"

text \<open>
  \<open>elements_for_layer\<close>: the index of the rows selected by
  \<open>(x_top <= layer.top) & (x_bottom >= layer.bottom)\<close>.
\<close>

definition elements_for_layer :: "tables \<Rightarrow> Layer \<Rightarrow> nat list" where
  "elements_for_layer tab layer =
     filter (\<lambda>i. x_top (fst (tab ! i)) \<le> layer_top layer \<and> x_bottom (fst (tab ! i)) \<ge> layer_bottom layer)
       [0..<length tab]"


definition uw_water :: real where
  "uw_water = 10"

definition soil_weight_element :: "SoilProfile \<Rightarrow> real list \<Rightarrow> real list \<Rightarrow> Layer \<Rightarrow> nat \<Rightarrow> real" where
  "soil_weight_element soil Vi elevation layer i =
     (if elevation ! i \<le> water_line soil then weight layer * Vi ! i
      else (weight layer - uw_water) * Vi ! i)"

text \<open>The inner loop of \<open>entrapped_soil_weight\<close>: one layer writes its elements of \<open>element_sw\<close>.\<close>

definition sw_layer_loop ::
  "tables \<Rightarrow> SoilProfile \<Rightarrow> real list \<Rightarrow> real list \<Rightarrow> real list \<Rightarrow> Layer \<Rightarrow> real list" where
  "sw_layer_loop tab soil Vi elevation element_sw layer =
     foldl (\<lambda>sw i. sw[i := soil_weight_element soil Vi elevation layer i])
       element_sw (elements_for_layer tab layer)"

definition entrapped_soil_weight :: "mapper \<Rightarrow> Pile \<Rightarrow> SoilProfile \<Rightarrow> real" where
  "entrapped_soil_weight get_all_properties pile soil =
     (let tab = get_all_properties pile (Some soil) None 0.1;
          Vi = pile_inside_volume get_all_properties pile (Some soil);
          elevation = map (\<lambda>(s, e). 0.5 * (x_top s + x_bottom s)) tab;
          elem_number = length tab;
          element_sw = replicate elem_number 0
      in sum_list (foldl (sw_layer_loop tab soil Vi elevation) element_sw (layers soil)))"

text \<open>
  \<open>shaft_resistance\<close>: \<open>element_fs\<close> has two rows, the outer and the inner resistance of
  each element.
\<close>

definition depth_from_ground :: "tables \<Rightarrow> nat \<Rightarrow> real" where
  "depth_from_ground tab i = (\<bar>xg_top (fst (tab ! i))\<bar> + \<bar>xg_bottom (fst (tab ! i))\<bar>) / 2"

definition sigveff :: "tables \<Rightarrow> nat \<Rightarrow> real" where
  "sigveff tab i = 0.5 * (sigma_v_top (fst (tab ! i)) + sigma_v_bottom (fst (tab ! i)))"

definition outer_shaft_element :: "tables \<Rightarrow> real list \<Rightarrow> real list \<Rightarrow> Layer \<Rightarrow> AxialModel \<Rightarrow> nat \<Rightarrow> real" where
  "outer_shaft_element tab So Si layer am i =
     unit_shaft_friction am (sigveff tab i) (depth_from_ground tab i) (layer_top layer - layer_bottom layer)
       * fst (unit_shaft_signature am (So ! i) (Si ! i))
       * So ! i
       * t_multiplier am"

definition inner_shaft_element :: "tables \<Rightarrow> real list \<Rightarrow> real list \<Rightarrow> Layer \<Rightarrow> AxialModel \<Rightarrow> nat \<Rightarrow> real" where
  "inner_shaft_element tab So Si layer am i =
     unit_shaft_friction am (sigveff tab i) (depth_from_ground tab i) (layer_top layer - layer_bottom layer)
       * snd (unit_shaft_signature am (So ! i) (Si ! i))
       * Si ! i
       * t_multiplier am"

definition fs_layer_loop ::
  "tables \<Rightarrow> real list \<Rightarrow> real list \<Rightarrow> real list \<times> real list \<Rightarrow> Layer \<Rightarrow> real list \<times> real list" where
  "fs_layer_loop tab So Si element_fs layer =
     (case axial_model layer of
        None \<Rightarrow> element_fs
      | Some am \<Rightarrow>
          foldl (\<lambda>(fs0, fs1) i.
                   (fs0[i := outer_shaft_element tab So Si layer am i],
                    fs1[i := inner_shaft_element tab So Si layer am i]))
            element_fs (elements_for_layer tab layer))"

text \<open>\<open>element_fs.sum()\<close>, the sum over both rows.\<close>

definition element_fs_sum :: "real list \<times> real list \<Rightarrow> real" where
  "element_fs_sum element_fs = sum_list (fst element_fs) + sum_list (snd element_fs)"

definition shaft_resistance :: "mapper \<Rightarrow> Pile \<Rightarrow> SoilProfile \<Rightarrow> bool \<Rightarrow> bool \<Rightarrow> real" where
  "shaft_resistance get_all_properties pile soil outer_shaft inner_shaft =
     (let tab = get_all_properties pile (Some soil) None 0.1;
          elem_number = length tab;
          (So, Si) = pile_element_surface get_all_properties pile (Some soil);
          element_fs = (replicate elem_number 0, replicate elem_number 0);
          (fs0, fs1) = foldl (fs_layer_loop tab So Si) element_fs (layers soil);
          fs0' = (if \<not> outer_shaft then replicate (length fs0) 0 else fs0);
          fs1' = (if \<not> inner_shaft then replicate (length fs1) 0 else fs1)
      in element_fs_sum (fs0', fs1'))"

text \<open>
  \<open>unit_end_bearing\<close>: the local \<open>q\<close> is unbound (\<open>None\<close>) until a layer assigns it; every
  layer without an axial model assigns 0, and a layer with one assigns only when the pile
  tip lies in it. The source passes the stress as a one-element tuple; the model passes its
  element.
\<close>

definition ueb_layer_step ::
  "tables \<Rightarrow> Pile \<Rightarrow> SoilProfile \<Rightarrow> real option \<Rightarrow> Layer \<Rightarrow> error + real option" where
  "ueb_layer_step soil_properties pile soil q layer =
     (case axial_model layer of
        None \<Rightarrow> Inr (Some 0)
      | Some am \<Rightarrow>
          (case pile_bottom_elevation pile of
             Inl e \<Rightarrow> Inl e
           | Inr pb \<Rightarrow>
               if layer_top layer \<ge> pb \<and> layer_bottom layer \<le> pb then
                 (if soil_properties = [] then Inl IndexError
                  else
                    let sig_v_tip = sigma_v_bottom (fst (last soil_properties)) in
                    Inr (Some (unit_tip_resistance am sig_v_tip
                                 (soil_top_elevation soil - soil_bottom_elevation soil)
                                 (layer_top layer - layer_bottom layer)
                               * Q_multiplier am)))
               else Inr q))"

fun ueb_loop ::
  "tables \<Rightarrow> Pile \<Rightarrow> SoilProfile \<Rightarrow> real option \<Rightarrow> Layer list \<Rightarrow> error + real option" where
  "ueb_loop soil_properties pile soil q [] = Inr q"
| "ueb_loop soil_properties pile soil q (layer # rest) =
     (case ueb_layer_step soil_properties pile soil q layer of
        Inl e \<Rightarrow> Inl e
      | Inr q' \<Rightarrow> ueb_loop soil_properties pile soil q' rest)"

definition unit_end_bearing :: "mapper \<Rightarrow> Pile \<Rightarrow> SoilProfile \<Rightarrow> error + real" where
  "unit_end_bearing get_all_properties pile soil =
     (let soil_properties = get_all_properties pile (Some soil) None 0.1 in
      case ueb_loop soil_properties pile soil None (layers soil) of
        Inl e \<Rightarrow> Inl e
      | Inr None \<Rightarrow> Inl (UnboundLocalError ''q'')
      | Inr (Some q) \<Rightarrow> Inr q)"

text \<open>
  \<open>isplugged\<close>, the body: with method \<open>"API-87"\<close> and a kind that is neither
  \<open>"compression"\<close> nor \<open>"tension"\<close> the local \<open>answer\<close> is unbound at the return.
\<close>

definition isplugged :: "mapper \<Rightarrow> Pile \<Rightarrow> SoilProfile \<Rightarrow> string \<Rightarrow> string \<Rightarrow> error + bool" where
  "isplugged get_all_properties pile soil method kind =
     (if method = ''API-87'' then
        (if kind = ''compression'' then
           (case unit_end_bearing get_all_properties pile soil of
              Inl e \<Rightarrow> Inl e
            | Inr q \<Rightarrow>
                (case tip_footprint pile of
                   Inl e \<Rightarrow> Inl e
                 | Inr fp \<Rightarrow>
                     (case tip_area pile of
                        Inl e \<Rightarrow> Inl e
                      | Inr ta \<Rightarrow>
                          Inr (q * (fp - ta)
                                 < shaft_resistance get_all_properties pile soil False True
                                   - entrapped_soil_weight get_all_properties pile soil))))
         else if kind = ''tension'' then
           Inr (entrapped_soil_weight get_all_properties pile soil
                  < shaft_resistance get_all_properties pile soil False True)
         else Inl (UnboundLocalError ''answer''))
      else if method = ''ICP-05'' then
        (case tip_footprint pile of
           Inl e \<Rightarrow> Inl e
         | Inr fp \<Rightarrow>
             (if 4 * fp / pi < 0 then Inl (ValueError ''math domain error'')
              else
                let pile_tip_criterion = sqrt (4 * fp / pi) in
                Inr (if pile_tip_criterion < 1.4 then True else False)))
      else Inl (Exception ''Method not implemented''))"

text \<open>
  \<open>isplugged\<close> receives the pile and the soil profile by reference: \<open>objects\<close> is what its
  caller holds of the two, and a step on them returns its value or its exception together
  with the objects as it leaves them. \<open>and_then\<close> is the order of evaluation, an exception
  ending it. The statements of \<open>unit_end_bearing\<close>, \<open>shaft_resistance\<close> and
  \<open>entrapped_soil_weight\<close> assign to their locals and to the arrays they allocate
  themselves, never to an attribute of \<open>pile\<close> or \<open>soil\<close>; the properties \<open>tip_footprint\<close> and
  \<open>tip_area\<close> only read. \<open>isplugged_run\<close> is the body of \<open>isplugged\<close> run on the objects, its
  operands evaluated from left to right.
\<close>

record objects =
  obj_pile :: Pile
  obj_soil :: SoilProfile

type_synonym 'a step = "objects \<Rightarrow> (error + 'a) \<times> objects"

definition and_then :: "'a step \<Rightarrow> ('a \<Rightarrow> 'b step) \<Rightarrow> 'b step" where
  "and_then f k w = (case f w of (Inl e, w') \<Rightarrow> (Inl e, w') | (Inr v, w') \<Rightarrow> k v w')"

definition returns :: "'a \<Rightarrow> 'a step" where
  "returns v w = (Inr v, w)"

definition raises :: "error \<Rightarrow> 'a step" where
  "raises e w = (Inl e, w)"

definition unit_end_bearing_run :: "mapper \<Rightarrow> real step" where
  "unit_end_bearing_run get_all_properties w =
     (unit_end_bearing get_all_properties (obj_pile w) (obj_soil w), w)"

definition shaft_resistance_run :: "mapper \<Rightarrow> bool \<Rightarrow> bool \<Rightarrow> real step" where
  "shaft_resistance_run get_all_properties outer_shaft inner_shaft w =
     (Inr (shaft_resistance get_all_properties (obj_pile w) (obj_soil w) outer_shaft inner_shaft), w)"

definition entrapped_soil_weight_run :: "mapper \<Rightarrow> real step" where
  "entrapped_soil_weight_run get_all_properties w =
     (Inr (entrapped_soil_weight get_all_properties (obj_pile w) (obj_soil w)), w)"

definition tip_footprint_run :: "real step" where
  "tip_footprint_run w = (tip_footprint (obj_pile w), w)"

definition tip_area_run :: "real step" where
  "tip_area_run w = (tip_area (obj_pile w), w)"

definition isplugged_run :: "mapper \<Rightarrow> string \<Rightarrow> string \<Rightarrow> bool step" where
  "isplugged_run get_all_properties method kind =
     (if method = ''API-87'' then
        (if kind = ''compression'' then
           and_then (unit_end_bearing_run get_all_properties) (\<lambda>q.
           and_then tip_footprint_run (\<lambda>fp.
           and_then tip_area_run (\<lambda>ta.
           and_then (shaft_resistance_run get_all_properties False True) (\<lambda>fs.
           and_then (entrapped_soil_weight_run get_all_properties) (\<lambda>sw.
           returns (q * (fp - ta) < fs - sw))))))
         else if kind = ''tension'' then
           and_then (entrapped_soil_weight_run get_all_properties) (\<lambda>sw.
           and_then (shaft_resistance_run get_all_properties False True) (\<lambda>fs.
           returns (sw < fs)))
         else raises (UnboundLocalError ''answer''))
      else if method = ''ICP-05'' then
        and_then tip_footprint_run (\<lambda>fp.
          if 4 * fp / pi < 0 then raises (ValueError ''math domain error'')
          else returns (if sqrt (4 * fp / pi) < 1.4 then True else False))
      else raises (Exception ''Method not implemented''))"

text \<open>
  A call of \<open>isplugged\<close> binds its arguments first: \<open>method\<close> has no default, so a call that
  does not pass it raises TypeError before the body runs; \<open>kind\<close> defaults to
  \<open>"compression"\<close>. \<open>None\<close> is an argument the call does not pass.
\<close>

definition isplugged_call ::
  "mapper \<Rightarrow> Pile \<Rightarrow> SoilProfile \<Rightarrow> string option \<Rightarrow> string option \<Rightarrow> error + bool" where
  "isplugged_call get_all_properties pile soil method kind =
     (case method of
        None \<Rightarrow> Inl (TypeError ''isplugged() missing 1 required positional argument: 'method' '')
      | Some m \<Rightarrow>
          isplugged get_all_properties pile soil m (case kind of None \<Rightarrow> ''compression'' | Some k \<Rightarrow> k))"

text \<open>
  \<open>compressioncapacity\<close>: each assignment to \<open>Q\<close> ends at its line; the line that follows
  it, starting with \<open>+\<close>, is an expression statement whose value is dropped (\<open>discard\<close>).
\<close>

definition discard :: "error + real \<Rightarrow> error + real \<Rightarrow> error + real" where
  "discard stmt Q = (case stmt of Inl e \<Rightarrow> Inl e | Inr v \<Rightarrow> Q)"

definition compressioncapacity :: "mapper \<Rightarrow> Pile \<Rightarrow> SoilProfile \<Rightarrow> error + real" where
  "compressioncapacity get_all_properties pile soil =
     (case isplugged_call get_all_properties pile soil None (Some ''compression'') of
        Inl e \<Rightarrow> Inl e
      | Inr plugged \<Rightarrow>
          if plugged then
            (let Q = shaft_resistance get_all_properties pile soil True False in
             discard
               (case unit_end_bearing get_all_properties pile soil of
                  Inl e \<Rightarrow> Inl e
                | Inr q \<Rightarrow>
                    (case tip_footprint pile of
                       Inl e \<Rightarrow> Inl e
                     | Inr fp \<Rightarrow> Inr (q * fp - entrapped_soil_weight get_all_properties pile soil)))
               (Inr Q))
          else
            (let Q = shaft_resistance get_all_properties pile soil True True in
             discard
               (case unit_end_bearing get_all_properties pile soil of
                  Inl e \<Rightarrow> Inl e
                | Inr q \<Rightarrow>
                    (case tip_area pile of
                       Inl e \<Rightarrow> Inl e
                     | Inr ta \<Rightarrow> Inr (q * ta)))
               (Inr Q)))"

definition tensilecapacity :: "mapper \<Rightarrow> Pile \<Rightarrow> SoilProfile \<Rightarrow> error + real" where
  "tensilecapacity get_all_properties pile soil =
     (case isplugged_call get_all_properties pile soil None (Some ''tension'') of
        Inl e \<Rightarrow> Inl e
      | Inr plugged \<Rightarrow>
          if plugged then
            Inr (shaft_resistance get_all_properties pile soil True False
                 + entrapped_soil_weight get_all_properties pile soil)
          else Inr (shaft_resistance get_all_properties pile soil True True))"

section \<open>Construction of piles and soil profiles (\<open>construct.py\<close>)\<close>

text \<open>
  \<open>Pile.pile_sections_must_not_overlap\<close>: the sections are sorted by descending top elevation
  (Python's \<open>sorted\<close> is stable, as \<open>sort_key\<close> is), stored, and each section's top is
  compared with the bottom of the one before it by \<open>!=\<close>. It is the only validator of \<open>Pile\<close>
  that raises.
\<close>

fun check_connect :: "nat \<Rightarrow> CircularPileSection \<Rightarrow> CircularPileSection list \<Rightarrow> error + unit" where
  "check_connect i previous_segment [] = Inr ()"
| "check_connect i previous_segment (segment # rest) =
     (if top_elevation segment \<noteq> bottom_elevation previous_segment
      then Inl (SectionsNotConnected i (i - 1))
      else check_connect (Suc i) segment rest)"

definition sorted_sections :: "Pile \<Rightarrow> CircularPileSection list" where
  "sorted_sections p = sort_key (\<lambda>x. - top_elevation x) (pile_sections p)"

definition pile_sections_must_not_overlap :: "Pile \<Rightarrow> error + Pile" where
  "pile_sections_must_not_overlap p =
     (let self = p\<lparr>pile_sections := sorted_sections p\<rparr> in
      case pile_sections self of
        [] \<Rightarrow> Inr self
      | first # rest \<Rightarrow>
          (case check_connect 1 first rest of
             Inl e \<Rightarrow> Inl e
           | Inr u \<Rightarrow> Inr self))"

text \<open>
  \<open>SoilProfile.check_layers_elevations\<close>. \<open>math.isclose(a, b, abs_tol=t)\<close> keeps its default
  relative tolerance \<open>1e-09\<close>. \<open>np.argsort\<close> is taken as the stable ascending sort of the
  indices; the sorted arrays are then reversed.
\<close>

definition isclose :: "real \<Rightarrow> real \<Rightarrow> real \<Rightarrow> bool" where
  "isclose a b abs_tol = (\<bar>a - b\<bar> \<le> max (1 / 10 ^ 9 * max \<bar>a\<bar> \<bar>b\<bar>) abs_tol)"

definition argsort :: "real list \<Rightarrow> nat list" where
  "argsort xs = sort_key (\<lambda>i. xs ! i) [0..<length xs]"

definition top_sorted :: "SoilProfile \<Rightarrow> real list" where
  "top_sorted sp =
     (let top_elevations = map layer_top (layers sp);
          idx_sort = argsort top_elevations
      in rev (map (\<lambda>i. top_elevations ! i) idx_sort))"

definition bottom_sorted :: "SoilProfile \<Rightarrow> real list" where
  "bottom_sorted sp =
     (let top_elevations = map layer_top (layers sp);
          bottom_elevations = map layer_bottom (layers sp);
          idx_sort = argsort top_elevations
      in rev (map (\<lambda>i. bottom_elevations ! i) idx_sort))"

definition check_layers_elevations :: "SoilProfile \<Rightarrow> error + SoilProfile" where
  "check_layers_elevations sp =
     (if top_sorted sp = [] then Inl IndexError
      else if top_sorted sp ! 0 \<noteq> soil_top_elevation sp
        then Inl (ValueError ''top_elevation not matching uppermost layer's elevations.'')
      else if \<not> list_all (\<lambda>i. isclose (top_sorted sp ! (i + 1)) (bottom_sorted sp ! i) (1 / 1000))
                   [0..<length (top_sorted sp) - 1]
        then Inl (ValueError ''Layers' elevations overlap.'')
      else Inr sp)"

section \<open>The spring assembly engine (\<open>Model.model_post_init\<close>)\<close>

text \<open>
  \<open>setitem a idx v\<close> is the assignment \<open>a[idx] = v\<close> to the block of the remaining axes. The
  value is broadcast to the shape of the block as numpy does: axes are matched from the
  last one, an axis of the value must have the length of the block's axis or length 1, and
  axes the value has in excess must have length 1. A value that cannot be broadcast is the
  ValueError of numpy, an index out of bounds the IndexError.
\<close>

definition zeros :: "nat list \<Rightarrow> ndarray" where
  "zeros shp = \<lparr>shape = shp, data = replicate (prod_list shp) 0\<rparr>"

fun flat_offset :: "nat list \<Rightarrow> nat list \<Rightarrow> nat" where
  "flat_offset (n # shp) (i # idx) = i * prod_list shp + flat_offset shp idx"
| "flat_offset shp idx = 0"

fun unravel :: "nat list \<Rightarrow> nat \<Rightarrow> nat list" where
  "unravel [] k = []"
| "unravel (n # shp) k = (k div prod_list shp) # unravel shp (k mod prod_list shp)"

definition in_bounds :: "ndarray \<Rightarrow> nat list \<Rightarrow> bool" where
  "in_bounds a idx =
     (length idx \<le> length (shape a) \<and> list_all2 (\<lambda>i n. i < n) idx (take (length idx) (shape a)))"

definition broadcastable :: "nat list \<Rightarrow> nat list \<Rightarrow> bool" where
  "broadcastable vshape block =
     (list_all (\<lambda>d. d = 1) (take (length vshape - length block) vshape)
      \<and> list_all (\<lambda>(d, n). d = 1 \<or> d = n) (zip (rev vshape) (rev block)))"

definition broadcast_to :: "ndarray \<Rightarrow> nat list \<Rightarrow> real list" where
  "broadcast_to v block =
     (let vshape = drop (length (shape v) - length block) (shape v);
          lead = length block - length vshape
      in map (\<lambda>k. data v ! flat_offset vshape
                     (map (\<lambda>(d, i). if d = 1 then 0 else i) (zip vshape (drop lead (unravel block k)))))
           [0..<prod_list block])"

definition setitem :: "ndarray \<Rightarrow> nat list \<Rightarrow> ndarray \<Rightarrow> error + ndarray" where
  "setitem a idx v =
     (if \<not> in_bounds a idx then Inl IndexError
      else
        let block = drop (length idx) (shape a) in
        if \<not> broadcastable (shape v) block
          then Inl (ValueError ''could not broadcast input array'')
        else
          let off = flat_offset (shape a) idx in
          Inr (a\<lparr>data := take off (data a) @ broadcast_to v block
                            @ drop (off + prod_list block) (data a)\<rparr>))"

datatype spring_call =
    Call_py spring_args
  | Call_mt spring_args
  | Call_Hb spring_args
  | Call_Mb spring_args

text \<open>
  The state of \<open>create_springs\<close>: its five arrays, the local \<open>pile_width\<close> (unbound until the
  first element of a layer with a lateral model is visited, and kept from one layer to the
  next), and the calls of spring functions made so far.
\<close>

record spring_state =
  py :: ndarray
  mt :: ndarray
  Hb :: ndarray
  Mb :: ndarray
  tz :: ndarray
  pile_width :: "real option"
  calls :: "spring_call list"

record Model =
  model_name :: string
  model_pile :: Pile
  model_soil :: "SoilProfile option"
  x2mesh :: "real list"
  coarseness :: real
  distributed_lateral :: bool
  distributed_moment :: bool
  base_shear :: bool
  base_moment :: bool
  distributed_axial :: bool
  base_axial :: bool
  model_tables :: tables
  element_number :: nat
  py_springs :: ndarray
  mt_springs :: ndarray
  Hb_spring :: ndarray
  Mb_spring :: ndarray
  tz_springs :: ndarray

fun fold_err :: "('s \<Rightarrow> 'a \<Rightarrow> error + 's) \<Rightarrow> 's \<Rightarrow> 'a list \<Rightarrow> error + 's" where
  "fold_err f s [] = Inr s"
| "fold_err f s (x # xs) = (case f s x of Inl e \<Rightarrow> Inl e | Inr s' \<Rightarrow> fold_err f s' xs)"

text \<open>The keyword arguments of a p-y or m-t call at end \<open>j\<close> of an element.\<close>

definition end_args :: "SoilProfile \<Rightarrow> real \<Rightarrow> Layer \<Rightarrow> soil_row \<Rightarrow> real \<Rightarrow> nat \<Rightarrow> nat \<Rightarrow> spring_args" where
  "end_args s pile_bottom layer row width spring_dim j =
     (let sig_v = [sigma_v_top row, sigma_v_bottom row];
          elevation = [x_top row, x_bottom row];
          depth = [\<bar>xg_top row\<bar>, \<bar>xg_bottom row\<bar>]
      in \<lparr>arg_sig = sig_v ! j,
          arg_X = depth ! j,
          arg_layer_height = layer_top layer - layer_bottom layer,
          arg_depth_from_top_of_layer = layer_top layer - elevation ! j,
          arg_D = width,
          arg_L = soil_top_elevation s - pile_bottom,
          arg_below_water_table = (elevation ! j \<le> water_line s),
          arg_output_length = spring_dim\<rparr>)"

definition py_end ::
  "Model \<Rightarrow> SoilProfile \<Rightarrow> Layer \<Rightarrow> LateralModel \<Rightarrow> nat \<Rightarrow> nat \<Rightarrow> spring_state \<Rightarrow> nat \<Rightarrow> error + spring_state" where
  "py_end m s layer lm spring_dim i st j =
     (case pile_width st of
        None \<Rightarrow> Inl (UnboundLocalError ''pile_width'')
      | Some width \<Rightarrow>
          (case pile_bottom_elevation (model_pile m) of
             Inl e \<Rightarrow> Inl e
           | Inr pile_bottom \<Rightarrow>
               let args = end_args s pile_bottom layer (fst (model_tables m ! i)) width spring_dim j;
                   (a, b) = py_spring_fct lm args;
                   st1 = st\<lparr>calls := calls st @ [Call_py args]\<rparr>
               in (case setitem (py st1) [i, j, 1] a of
                     Inl e \<Rightarrow> Inl e
                   | Inr py1 \<Rightarrow>
                       (case setitem py1 [i, j, 0] b of
                          Inl e \<Rightarrow> Inl e
                        | Inr py2 \<Rightarrow> Inr (st1\<lparr>py := py2\<rparr>)))))"

definition mt_end ::
  "Model \<Rightarrow> SoilProfile \<Rightarrow> Layer \<Rightarrow> LateralModel \<Rightarrow> nat \<Rightarrow> nat \<Rightarrow> spring_state \<Rightarrow> nat \<Rightarrow> error + spring_state" where
  "mt_end m s layer lm spring_dim i st j =
     (case pile_width st of
        None \<Rightarrow> Inl (UnboundLocalError ''pile_width'')
      | Some width \<Rightarrow>
          (case pile_bottom_elevation (model_pile m) of
             Inl e \<Rightarrow> Inl e
           | Inr pile_bottom \<Rightarrow>
               let args = end_args s pile_bottom layer (fst (model_tables m ! i)) width spring_dim j;
                   (a, b) = mt_spring_fct lm args;
                   st1 = st\<lparr>calls := calls st @ [Call_mt args]\<rparr>
               in (case setitem (mt st1) [i, j, 1] a of
                     Inl e \<Rightarrow> Inl e
                   | Inr mt1 \<Rightarrow>
                       (case setitem mt1 [i, j, 0] b of
                          Inl e \<Rightarrow> Inl e
                        | Inr mt2 \<Rightarrow> Inr (st1\<lparr>mt := mt2\<rparr>)))))"

text \<open>The body of the loop over the elements of a layer that has a lateral model.\<close>

definition element_springs ::
  "Model \<Rightarrow> SoilProfile \<Rightarrow> Layer \<Rightarrow> LateralModel \<Rightarrow> nat \<Rightarrow> spring_state \<Rightarrow> nat \<Rightarrow> error + spring_state" where
  "element_springs m s layer lm spring_dim st i =
     (let st1 = st\<lparr>pile_width := Some (Diameter (snd (model_tables m ! i)))\<rparr> in
      case (if fst (spring_signature lm) \<and> distributed_lateral m
            then fold_err (py_end m s layer lm spring_dim i) st1 [0, 1] else Inr st1) of
        Inl e \<Rightarrow> Inl e
      | Inr st2 \<Rightarrow>
          if fst (snd (snd (spring_signature lm))) \<and> distributed_moment m
          then fold_err (mt_end m s layer lm spring_dim i) st2 [0, 1] else Inr st2)"

definition tip_args :: "SoilProfile \<Rightarrow> real \<Rightarrow> Layer \<Rightarrow> real \<Rightarrow> real \<Rightarrow> nat \<Rightarrow> spring_args" where
  "tip_args s pile_bottom layer sig_v_tip width spring_dim =
     \<lparr>arg_sig = sig_v_tip,
      arg_X = soil_top_elevation s - soil_bottom_elevation s,
      arg_layer_height = layer_top layer - layer_bottom layer,
      arg_depth_from_top_of_layer = layer_top layer - pile_bottom,
      arg_D = width,
      arg_L = soil_top_elevation s - pile_bottom,
      arg_below_water_table = (pile_bottom \<le> water_line s),
      arg_output_length = spring_dim\<rparr>"

definition Hb_tip ::
  "SoilProfile \<Rightarrow> real \<Rightarrow> Layer \<Rightarrow> LateralModel \<Rightarrow> real \<Rightarrow> nat \<Rightarrow> spring_state \<Rightarrow> error + spring_state" where
  "Hb_tip s pile_bottom layer lm sig_v_tip spring_dim st =
     (case pile_width st of
        None \<Rightarrow> Inl (UnboundLocalError ''pile_width'')
      | Some width \<Rightarrow>
          let args = tip_args s pile_bottom layer sig_v_tip width spring_dim;
              (a, b) = Hb_spring_fct lm args;
              st1 = st\<lparr>calls := calls st @ [Call_Hb args]\<rparr>
          in (case setitem (Hb st1) [0, 0, 1] a of
                Inl e \<Rightarrow> Inl e
              | Inr Hb1 \<Rightarrow>
                  (case setitem Hb1 [0, 0, 0] b of
                     Inl e \<Rightarrow> Inl e
                   | Inr Hb2 \<Rightarrow> Inr (st1\<lparr>Hb := Hb2\<rparr>))))"

definition Mb_tip ::
  "SoilProfile \<Rightarrow> real \<Rightarrow> Layer \<Rightarrow> LateralModel \<Rightarrow> real \<Rightarrow> nat \<Rightarrow> spring_state \<Rightarrow> error + spring_state" where
  "Mb_tip s pile_bottom layer lm sig_v_tip spring_dim st =
     (case pile_width st of
        None \<Rightarrow> Inl (UnboundLocalError ''pile_width'')
      | Some width \<Rightarrow>
          let args = tip_args s pile_bottom layer sig_v_tip width spring_dim;
              (a, b) = Mb_spring_fct lm args;
              st1 = st\<lparr>calls := calls st @ [Call_Mb args]\<rparr>
          in (case setitem (Mb st1) [0, 0, 1] a of
                Inl e \<Rightarrow> Inl e
              | Inr Mb1 \<Rightarrow>
                  (case setitem Mb1 [0, 0, 0] b of
                     Inl e \<Rightarrow> Inl e
                   | Inr Mb2 \<Rightarrow> Inr (st1\<lparr>Mb := Mb2\<rparr>))))"

text \<open>The check whether the pile tip is within the layer, and the two base springs.\<close>

definition tip_springs ::
  "Model \<Rightarrow> SoilProfile \<Rightarrow> Layer \<Rightarrow> LateralModel \<Rightarrow> nat \<Rightarrow> spring_state \<Rightarrow> error + spring_state" where
  "tip_springs m s layer lm spring_dim st =
     (case pile_bottom_elevation (model_pile m) of
        Inl e \<Rightarrow> Inl e
      | Inr pile_bottom \<Rightarrow>
          if layer_top layer \<ge> pile_bottom \<and> layer_bottom layer \<le> pile_bottom then
            (if model_tables m = [] then Inl IndexError
             else
               let sig_v_tip = sigma_v_bottom (fst (last (model_tables m))) in
               case (if fst (snd (spring_signature lm)) \<and> base_shear m
                     then Hb_tip s pile_bottom layer lm sig_v_tip spring_dim st else Inr st) of
                 Inl e \<Rightarrow> Inl e
               | Inr st1 \<Rightarrow>
                   if snd (snd (snd (spring_signature lm))) \<and> base_moment m
                   then Mb_tip s pile_bottom layer lm sig_v_tip spring_dim st1 else Inr st1)
          else Inr st)"

definition layer_springs ::
  "Model \<Rightarrow> SoilProfile \<Rightarrow> nat \<Rightarrow> spring_state \<Rightarrow> Layer \<Rightarrow> error + spring_state" where
  "layer_springs m s spring_dim st layer =
     (let elements = elements_for_layer (model_tables m) layer in
      case lateral_model layer of
        None \<Rightarrow> Inr st
      | Some lm \<Rightarrow>
          (case fold_err (element_springs m s layer lm spring_dim) st elements of
             Inl e \<Rightarrow> Inl e
           | Inr st1 \<Rightarrow> tip_springs m s layer lm spring_dim st1))"

text \<open>
  \<open>create_springs\<close>: the arrays are allocated, the layers are visited, and then the first
  of the four checks calls \<open>check_springs\<close>. No statement of \<open>construct.py\<close> binds that name,
  neither a definition nor an import, so looking it up raises NameError: the
  \<open>return py, mt, Hb, Mb, tz\<close> that follows the checks is never reached. Without a soil
  profile \<open>self.soil.layers\<close> is the AttributeError.
\<close>

definition allocate :: "nat \<Rightarrow> nat \<Rightarrow> spring_state" where
  "allocate n spring_dim =
     \<lparr>py = zeros [n, 2, 2, spring_dim],
      mt = zeros [n, 2, 2, spring_dim, spring_dim],
      Hb = zeros [1, 1, 2, spring_dim],
      Mb = zeros [1, 1, 2, spring_dim],
      tz = zeros [n, 2, 2, 15],
      pile_width = None, calls = []\<rparr>"

definition create_springs :: "Model \<Rightarrow> error + spring_state" where
  "create_springs m =
     (let spring_dim = 15;
          st0 = allocate (element_number m) spring_dim
      in case model_soil m of
           None \<Rightarrow> Inl (AttributeError ''NoneType object has no attribute layers'')
         | Some s \<Rightarrow>
             (case fold_err (layer_springs m s spring_dim) st0 (layers s) of
                Inl e \<Rightarrow> Inl e
              | Inr st \<Rightarrow> Inl (NameError ''name 'check_springs' is not defined'')))"

text \<open>
  \<open>model_post_init\<close>, as far as the springs go: the tables, the element number, and the
  spring arrays unpacked from the value of \<open>create_springs\<close>. The assignments to attributes
  of \<open>self\<close> are taken as plain attribute assignments.
\<close>

definition model_post_init :: "mapper \<Rightarrow> Model \<Rightarrow> error + Model" where
  "model_post_init get_all_properties m =
     (let tab = get_all_properties (model_pile m) (model_soil m) (Some (x2mesh m)) (coarseness m);
          self = m\<lparr>model_tables := tab, element_number := length tab\<rparr>
      in case create_springs self of
           Inl e \<Rightarrow> Inl e
         | Inr st \<Rightarrow>
             Inr (self\<lparr>py_springs := py st, mt_springs := mt st, Hb_spring := Hb st,
                       Mb_spring := Mb st, tz_springs := tz st\<rparr>))"

text \<open>
  \<open>get_Hb_spring\<close> and \<open>get_Mb_spring\<close>: the table has two rows (\<open>Node no.\<close>, \<open>Elevation [m]\<close>,
  \<open>type\<close>) and the columns \<open>VAL 0\<close>, ..., here the two rows of values. Without a soil
  profile the result is \<open>None\<close>.
\<close>

record DataFrame =
  node_no :: "nat list"
  elevation_m :: "real list"
  type_col :: "string list"
  VAL :: "real list list"

definition reshape :: "ndarray \<Rightarrow> nat \<Rightarrow> nat \<Rightarrow> error + real list list" where
  "reshape a r c =
     (if length (data a) \<noteq> r * c then Inl (ValueError ''cannot reshape array'')
      else Inr (map (\<lambda>k. take c (drop (k * c) (data a))) [0..<r]))"

definition get_Hb_spring :: "Model \<Rightarrow> error + DataFrame option" where
  "get_Hb_spring m =
     (case model_soil m of
        None \<Rightarrow> Inr None
      | Some s \<Rightarrow>
          if shape (Hb_spring m) = [] then Inl IndexError
          else
            let spring_dim = last (shape (Hb_spring m)) in
            case pile_bottom_elevation (model_pile m) of
              Inl e \<Rightarrow> Inl e
            | Inr pile_bottom \<Rightarrow>
                (case reshape (Hb_spring m) 2 spring_dim of
                   Inl e \<Rightarrow> Inl e
                 | Inr rows \<Rightarrow>
                     Inr (Some \<lparr>node_no = [element_number m + 1, element_number m + 1],
                                elevation_m = [pile_bottom, pile_bottom],
                                type_col = [''Hb'', ''y''],
                                VAL = rows\<rparr>)))"

definition get_Mb_spring :: "Model \<Rightarrow> error + DataFrame option" where
  "get_Mb_spring m =
     (case model_soil m of
        None \<Rightarrow> Inr None
      | Some s \<Rightarrow>
          if shape (Hb_spring m) = [] then Inl IndexError
          else
            let spring_dim = last (shape (Hb_spring m)) in
            case pile_bottom_elevation (model_pile m) of
              Inl e \<Rightarrow> Inl e
            | Inr pile_bottom \<Rightarrow>
                (case reshape (Hb_spring m) 2 spring_dim of
                   Inl e \<Rightarrow> Inl e
                 | Inr rows \<Rightarrow>
                     Inr (Some \<lparr>node_no = [element_number m + 1, element_number m + 1],
                                elevation_m = [pile_bottom, pile_bottom],
                                type_col = [''Mb'', ''t''],
                                VAL = rows\<rparr>)))"

text \<open>
  What \<open>create_springs\<close> keeps true of a state \<open>st\<close> reached from \<open>st0\<close>: the arrays of a
  family whose toggle is off are those of \<open>st0\<close>, and no function of that family was called.
\<close>

definition disabled_untouched :: "Model \<Rightarrow> spring_state \<Rightarrow> spring_state \<Rightarrow> bool" where
  "disabled_untouched m st0 st =
     ((\<not> distributed_lateral m \<longrightarrow> py st = py st0 \<and> (\<forall>a. Call_py a \<notin> set (calls st)))
      \<and> (\<not> distributed_moment m \<longrightarrow> mt st = mt st0 \<and> (\<forall>a. Call_mt a \<notin> set (calls st)))
      \<and> (\<not> base_shear m \<longrightarrow> Hb st = Hb st0 \<and> (\<forall>a. Call_Hb a \<notin> set (calls st)))
      \<and> (\<not> base_moment m \<longrightarrow> Mb st = Mb st0 \<and> (\<forall>a. Call_Mb a \<notin> set (calls st))))"


section \<open>Concrete piles, soil profiles and models\<close>

text \<open>
  A tubular pile of diameter 2 and wall thickness 1/2 from elevation 0 down to \<open>b\<close>, meshed
  as one element from 0 to -10; a sand layer from 0 to -10 with an axial model, and a clay
  layer from -10 to -20 without one.
\<close>

definition example_axial :: AxialModel where
  "example_axial =
     \<lparr>unit_shaft_friction = (\<lambda>sig d h. sig / 4),
      unit_shaft_signature = (\<lambda>So Si. (1, 1)),
      unit_tip_resistance = (\<lambda>sig d h. sig),
      t_multiplier = 1,
      Q_multiplier = 2\<rparr>"

definition example_section :: "real \<Rightarrow> real \<Rightarrow> CircularPileSection" where
  "example_section t b = \<lparr>top_elevation = t, bottom_elevation = b, diameter = 2, thickness = 1 / 2\<rparr>"

definition example_pile :: "CircularPileSection list \<Rightarrow> Pile" where
  "example_pile secs = \<lparr>pile_name = ''P'', pile_sections = secs, material = \<lparr>unitweight = 78\<rparr>\<rparr>"

definition example_mapper :: mapper where
  "example_mapper p s x c =
     [(\<lparr>x_top = 0, x_bottom = - 10, xg_top = 0, xg_bottom = - 10,
        sigma_v_top = 0, sigma_v_bottom = 80\<rparr>,
       \<lparr>ex_top = 0, ex_bottom = - 10, Diameter = 2, Wall_thickness = 1 / 2, Area = 3 * pi / 4\<rparr>)]"

definition sand :: "real \<Rightarrow> Layer" where
  "sand w =
     \<lparr>layer_name = ''sand'', layer_top = 0, layer_bottom = - 10, weight = w,
      lateral_model = None, axial_model = Some example_axial\<rparr>"

definition clay :: Layer where
  "clay =
     \<lparr>layer_name = ''clay'', layer_top = - 10, layer_bottom = - 20, weight = 19,
      lateral_model = None, axial_model = None\<rparr>"

definition example_soil :: "real \<Rightarrow> real \<Rightarrow> Layer list \<Rightarrow> SoilProfile" where
  "example_soil t wl ls = \<lparr>soil_name = ''BH'', soil_top_elevation = t, water_line = wl, layers = ls\<rparr>"






text \<open>Two layers near elevation \<open>10^7\<close>, 0.005 apart.\<close>

definition far_layer :: "real \<Rightarrow> real \<Rightarrow> Layer" where
  "far_layer t b =
     \<lparr>layer_name = ''far'', layer_top = t, layer_bottom = b, weight = 18,
      lateral_model = None, axial_model = None\<rparr>"

definition far_soil :: SoilProfile where
  "far_soil =
     example_soil 10000010 0
       [far_layer 10000010 10000000, far_layer (10000000 - 5 / 1000) 9999990]"

text \<open>
  A lateral model that declares all four families and returns constant curves of the
  requested length, and a model on the sand layer carrying it.
\<close>

definition constant_curve :: "nat list \<Rightarrow> real \<Rightarrow> ndarray" where
  "constant_curve shp c = \<lparr>shape = shp, data = replicate (prod_list shp) c\<rparr>"

definition example_lateral :: LateralModel where
  "example_lateral =
     \<lparr>spring_signature = (True, True, True, True),
      py_spring_fct = (\<lambda>a. (constant_curve [arg_output_length a] 1,
                             constant_curve [arg_output_length a] 2)),
      mt_spring_fct = (\<lambda>a. (constant_curve [arg_output_length a, arg_output_length a] 3,
                             constant_curve [arg_output_length a, arg_output_length a] 4)),
      Hb_spring_fct = (\<lambda>a. (constant_curve [arg_output_length a] 5,
                             constant_curve [arg_output_length a] 6)),
      Mb_spring_fct = (\<lambda>a. (constant_curve [arg_output_length a] 7,
                             constant_curve [arg_output_length a] 8))\<rparr>"

definition example_model :: "bool \<Rightarrow> bool \<Rightarrow> bool \<Rightarrow> bool \<Rightarrow> ndarray \<Rightarrow> ndarray \<Rightarrow> Model" where
  "example_model dl dm bs bm hb mb =
     \<lparr>model_name = ''M'',
      model_pile = example_pile [example_section 0 (- 10)],
      model_soil = Some (example_soil 0 0 [(sand 18)\<lparr>lateral_model := Some example_lateral\<rparr>]),
      x2mesh = [],
      coarseness = 1 / 2,
      distributed_lateral = dl,
      distributed_moment = dm,
      base_shear = bs,
      base_moment = bm,
      distributed_axial = False,
      base_axial = False,
      model_tables = [],
      element_number = 0,
      py_springs = zeros [],
      mt_springs = zeros [],
      Hb_spring = hb,
      Mb_spring = mb,
      tz_springs = zeros []\<rparr>"


section \<open>Loops that write an array element by element\<close>




lemma elements_for_layer_weight [simp]:
  "elements_for_layer tab (layer\<lparr>weight := w\<rparr>) = elements_for_layer tab layer"
  by (simp add: elements_for_layer_def)

lemma elements_for_layer_axial [simp]:
  "elements_for_layer tab (layer\<lparr>axial_model := a\<rparr>) = elements_for_layer tab layer"
  by (simp add: elements_for_layer_def)




section \<open>Layers that write over one another\<close>

















section \<open>\<open>isplugged\<close> on the objects it receives\<close>

lemma isplugged_run_eq:
  "isplugged_run g method kind w = (isplugged g (obj_pile w) (obj_soil w) method kind, w)"
  by (simp add: isplugged_run_def isplugged_def and_then_def returns_def raises_def
      unit_end_bearing_run_def shaft_resistance_run_def entrapped_soil_weight_run_def
      tip_footprint_run_def tip_area_run_def Let_def split: sum.splits)

section \<open>The concrete pile in the concrete soil\<close>

lemmas example_defs = example_axial_def example_section_def example_pile_def example_mapper_def
  sand_def clay_def example_soil_def

lemma example_entrapped:
  "entrapped_soil_weight example_mapper (example_pile [example_section 0 (- 10)])
       (example_soil 0 wl [sand w])
     = (if - 5 \<le> wl then w * (5 / 2 * pi) else (w - 10) * (5 / 2 * pi))"
  by (simp add: entrapped_soil_weight_def pile_inside_volume_def sw_layer_loop_def
      elements_for_layer_def soil_weight_element_def uw_water_def example_defs)

lemma example_shaft_inner:
  "shaft_resistance example_mapper (example_pile [example_section 0 (- 10)])
       (example_soil 0 wl [sand w]) False True = 100 * pi"
  by (simp add: shaft_resistance_def pile_element_surface_def fs_layer_loop_def
      elements_for_layer_def element_fs_sum_def outer_shaft_element_def inner_shaft_element_def
      sigveff_def depth_from_ground_def example_defs)

lemma example_ueb:
  "unit_end_bearing example_mapper (example_pile [example_section 0 (- 10)])
       (example_soil 0 wl [sand w]) = Inr 160"
  by (simp add: unit_end_bearing_def ueb_layer_step_def pile_bottom_elevation_def
      soil_bottom_elevation_def example_defs)

lemma example_tip:
  "tip_footprint (example_pile [example_section 0 (- 10)]) = Inr pi"
  "tip_area (example_pile [example_section 0 (- 10)]) = Inr (3 * pi / 4)"
  by (simp_all add: tip_footprint_def tip_area_def get_footprint_def get_area_def example_defs
      power2_eq_square)


section \<open>Properties of the axial capacity engine\<close>

text \<open>
  C1. The claim: \<open>compressioncapacity\<close> returns outer shaft resistance plus gross end bearing
  minus entrapped soil weight when plugged and outer plus inner shaft resistance plus net
  end bearing when unplugged, and \<open>tensilecapacity\<close> returns outer shaft resistance plus
  entrapped soil weight when plugged and outer plus inner shaft resistance otherwise.
  The code returns no capacity at all: both functions call \<open>isplugged\<close> without its
  required argument \<open>method\<close>, so for every pile and soil profile both raise TypeError.
\<close>

theorem capacity_always_raises:
  "compressioncapacity get_all_properties pile soil
     = Inl (TypeError ''isplugged() missing 1 required positional argument: 'method' '')
   \<and> tensilecapacity get_all_properties pile soil
     = Inl (TypeError ''isplugged() missing 1 required positional argument: 'method' '')"
  by (simp add: compressioncapacity_def tensilecapacity_def isplugged_call_def)

text \<open>
  C2. The claim: \<open>entrapped_soil_weight\<close> takes the layer's unit weight reduced by 10 for an
  element whose midpoint is below the water line and at full value otherwise. The code
  has the two cases the other way round: the element of the concrete pile has its midpoint
  at -5, below the water line at 0, and weighs \<open>18 * V\<close> and not \<open>(18 - 10) * V\<close>, with
  \<open>V = 5/2 * pi\<close> its inner volume; with the water line at -20, below the element, it weighs
  \<open>(18 - 10) * V\<close>.
\<close>

theorem entrapped_soil_weight_buoyancy_inverted:
  "entrapped_soil_weight example_mapper (example_pile [example_section 0 (- 10)])
       (example_soil 0 0 [sand 18]) = 18 * (5 / 2 * pi)
   \<and> entrapped_soil_weight example_mapper (example_pile [example_section 0 (- 10)])
       (example_soil 0 0 [sand 18]) \<noteq> (18 - 10) * (5 / 2 * pi)
   \<and> entrapped_soil_weight example_mapper (example_pile [example_section 0 (- 10)])
       (example_soil 0 (- 20) [sand 18]) = (18 - 10) * (5 / 2 * pi)"
  by (simp add: example_entrapped)

text \<open>
  C3. The claim: for every pile and soil profile, \<open>isplugged\<close> with method \<open>"API-87"\<close> returns
  a boolean, for compression and for tension, with no side effects. For compression the
  code returns no boolean where \<open>unit_end_bearing\<close> returns no value: the pile from 0 to -15
  has its tip below the only layer, from 0 to -10, no layer assigns \<open>q\<close>, and the call ends
  with the UnboundLocalError of \<open>unit_end_bearing\<close>.
\<close>

theorem isplugged_not_total_counterexample:
  "isplugged_run example_mapper ''API-87'' ''compression''
       \<lparr>obj_pile = example_pile [example_section 0 (- 15)], obj_soil = example_soil 0 0 [sand 18]\<rparr>
     = (Inl (UnboundLocalError ''q''),
        \<lparr>obj_pile = example_pile [example_section 0 (- 15)], obj_soil = example_soil 0 0 [sand 18]\<rparr>)"
  by (simp add: isplugged_run_eq isplugged_def unit_end_bearing_def ueb_layer_step_def
      pile_bottom_elevation_def example_defs)

text \<open>
  C3, as amended. Where the unit end bearing, the tip footprint and the tip area have a
  value, \<open>isplugged\<close> with method \<open>"API-87"\<close> returns for compression the boolean
  \<open>unit_end_bearing * (tip_footprint - tip_area) < inner shaft resistance - entrapped soil weight\<close>,
  and it returns True for compression in no other case; for tension it returns, for every
  pile and soil profile, the boolean \<open>entrapped soil weight < inner shaft resistance\<close>.
  Whatever the method and the kind, and whether the call returns or raises, the pile and
  the soil profile are after the call what they were before it, and the value or exception
  is the one of the body evaluated on them.
\<close>

theorem isplugged_API87:
  "(unit_end_bearing get_all_properties (obj_pile w) (obj_soil w) = Inr q
      \<and> tip_footprint (obj_pile w) = Inr fp \<and> tip_area (obj_pile w) = Inr ta \<longrightarrow>
    isplugged_run get_all_properties ''API-87'' ''compression'' w
      = (Inr (q * (fp - ta)
                < shaft_resistance get_all_properties (obj_pile w) (obj_soil w) False True
                  - entrapped_soil_weight get_all_properties (obj_pile w) (obj_soil w)), w))
   \<and> (fst (isplugged_run get_all_properties ''API-87'' ''compression'' w) = Inr True \<longleftrightarrow>
        (\<exists>q fp ta. unit_end_bearing get_all_properties (obj_pile w) (obj_soil w) = Inr q
           \<and> tip_footprint (obj_pile w) = Inr fp \<and> tip_area (obj_pile w) = Inr ta
           \<and> q * (fp - ta)
               < shaft_resistance get_all_properties (obj_pile w) (obj_soil w) False True
                 - entrapped_soil_weight get_all_properties (obj_pile w) (obj_soil w)))
   \<and> isplugged_run get_all_properties ''API-87'' ''tension'' w
        = (Inr (entrapped_soil_weight get_all_properties (obj_pile w) (obj_soil w)
                  < shaft_resistance get_all_properties (obj_pile w) (obj_soil w) False True), w)
   \<and> snd (isplugged_run get_all_properties method kind w) = w
   \<and> fst (isplugged_run get_all_properties method kind w)
        = isplugged get_all_properties (obj_pile w) (obj_soil w) method kind"
  by (auto simp: isplugged_run_eq isplugged_def split: sum.splits)

theorem isplugged_API87_witness:
  "unit_end_bearing example_mapper (example_pile [example_section 0 (- 10)])
       (example_soil 0 0 [sand 18]) = Inr 160
   \<and> tip_footprint (example_pile [example_section 0 (- 10)]) = Inr pi
   \<and> tip_area (example_pile [example_section 0 (- 10)]) = Inr (3 * pi / 4)
   \<and> isplugged_run example_mapper ''API-87'' ''compression''
        \<lparr>obj_pile = example_pile [example_section 0 (- 10)], obj_soil = example_soil 0 0 [sand 18]\<rparr>
      = (Inr True,
         \<lparr>obj_pile = example_pile [example_section 0 (- 10)], obj_soil = example_soil 0 0 [sand 18]\<rparr>)
   \<and> isplugged_run example_mapper ''API-87'' ''tension''
        \<lparr>obj_pile = example_pile [example_section 0 (- 10)], obj_soil = example_soil 0 0 [sand 18]\<rparr>
      = (Inr True,
         \<lparr>obj_pile = example_pile [example_section 0 (- 10)], obj_soil = example_soil 0 0 [sand 18]\<rparr>)"
  using isplugged_API87 [of example_mapper
      "\<lparr>obj_pile = example_pile [example_section 0 (- 10)], obj_soil = example_soil 0 0 [sand 18]\<rparr>"
      160 pi "3 * pi / 4"]
  by (simp add: example_ueb example_tip example_entrapped example_shaft_inner)

text \<open>
  C4. The claim: \<open>unit_end_bearing\<close> is the unit tip resistance of the layer that contains the
  pile tip times its \<open>Q_multiplier\<close>, whatever the other layers and their order. In the code
  every layer without an axial model sets the result to 0, also one that does not contain
  the tip: for the pile with its tip at -5 in the sand, the clay layer below, listed after
  the sand, resets the end bearing to 0; listed before the sand it leaves it at 160, the
  tip resistance of the sand times its multiplier.
\<close>

theorem unit_end_bearing_reset_by_other_layer:
  "unit_end_bearing example_mapper (example_pile [example_section 0 (- 5)])
       (example_soil 0 0 [sand 18, clay]) = Inr 0
   \<and> unit_end_bearing example_mapper (example_pile [example_section 0 (- 5)])
       (example_soil 0 0 [clay, sand 18]) = Inr 160
   \<and> unit_tip_resistance example_axial 80 20 10 * Q_multiplier example_axial = 160"
  by (simp add: unit_end_bearing_def ueb_layer_step_def pile_bottom_elevation_def
      soil_bottom_elevation_def example_defs)




text \<open>
  C7. \<open>effective_pile_weight\<close> raises the exception with its message when no soil profile is
  attached, and \<open>isplugged\<close> raises "Method not implemented" for every method other than
  \<open>"API-87"\<close> and \<open>"ICP-05"\<close>, whatever the kind: neither returns a value.
\<close>

theorem missing_reference_errors:
  "effective_pile_weight get_all_properties pile None
     = Inl (Exception ''Model must be linked to a soil profile, use `openpile.construct.Pile.weight instead.`'')
   \<and> (method \<noteq> ''API-87'' \<and> method \<noteq> ''ICP-05'' \<longrightarrow>
        isplugged get_all_properties pile soil method kind = Inl (Exception ''Method not implemented''))"
  by (simp add: effective_pile_weight_def isplugged_def)

theorem missing_reference_errors_witness:
  "''API-88'' \<noteq> ''API-87'' \<and> ''API-88'' \<noteq> ''ICP-05''
   \<and> isplugged example_mapper (example_pile [example_section 0 (- 10)]) (example_soil 0 0 [sand 18])
        ''API-88'' ''compression'' = Inl (Exception ''Method not implemented'')
   \<and> effective_pile_weight example_mapper (example_pile [example_section 0 (- 10)]) None
        = Inl (Exception ''Model must be linked to a soil profile, use `openpile.construct.Pile.weight instead.`'')"
  using missing_reference_errors [of example_mapper "example_pile [example_section 0 (- 10)]"
      "''API-88''" "example_soil 0 0 [sand 18]" "''compression''"]
  by simp


section \<open>Lemmas on the validators and on the assembly of springs\<close>

lemma check_connect_Inr:
  "check_connect i previous rest = Inr () \<longleftrightarrow>
     (\<forall>k < length rest. top_elevation (rest ! k) = bottom_elevation ((previous # rest) ! k))"
proof (induction rest arbitrary: i previous)
  case Nil
  show ?case by simp
next
  case (Cons s rest)
  show ?case
    by (simp add: Cons.IH All_less_Suc2)
qed

lemma check_connect_Inl:
  "check_connect i previous rest = Inl e \<Longrightarrow> \<exists>k. e = SectionsNotConnected (Suc k) k \<or> i = 0"
proof (induction rest arbitrary: i previous)
  case Nil
  then show ?case by simp
next
  case (Cons s rest)
  show ?case
  proof (cases "top_elevation s \<noteq> bottom_elevation previous")
    case True
    with Cons.prems have "e = SectionsNotConnected i (i - 1)" by simp
    then show ?thesis by (cases i) auto
  next
    case False
    with Cons.prems have "check_connect (Suc i) s rest = Inl e" by simp
    from Cons.IH [OF this] show ?thesis by auto
  qed
qed

lemma connected_nth:
  "(\<forall>k. Suc k < length (x # xs) \<longrightarrow> P ((x # xs) ! Suc k) ((x # xs) ! k))
     \<longleftrightarrow> (\<forall>k < length xs. P (xs ! k) ((x # xs) ! k))"
  by auto

lemma far_sections_sorted:
  "sorted_sections (example_pile [example_section (- 10 - 1 / 2000) (- 20), example_section 0 (- 10)])
     = [example_section 0 (- 10), example_section (- 10 - 1 / 2000) (- 20)]"
  by (simp add: sorted_sections_def example_pile_def example_section_def)

lemma length_top_sorted: "length (top_sorted sp) = length (layers sp)"
  by (simp add: top_sorted_def argsort_def Let_def)

lemma top_sorted_Nil: "top_sorted sp = [] \<longleftrightarrow> layers sp = []"
  using length_top_sorted [of sp] by (metis length_0_conv)

lemma list_all_upt: "list_all P [0..<n] \<longleftrightarrow> (\<forall>i<n. P i)"
  by (auto simp: list_all_iff)

lemma isclose_small:
  assumes "\<bar>a\<bar> \<le> 10 ^ 6" "\<bar>b\<bar> \<le> 10 ^ 6"
  shows "isclose a b (1 / 1000) \<longleftrightarrow> \<bar>a - b\<bar> \<le> 1 / 1000"
proof -
  have "max \<bar>a\<bar> \<bar>b\<bar> \<le> 10 ^ 6" using assms by simp
  then have "1 / 10 ^ 9 * max \<bar>a\<bar> \<bar>b\<bar> \<le> 1 / 1000" by simp
  then show ?thesis by (simp add: isclose_def max_def)
qed

lemma far_sorted:
  "top_sorted far_soil = [10000010, 10000000 - 5 / 1000]"
  "bottom_sorted far_soil = [10000000, 9999990]"
  by (simp_all add: top_sorted_def bottom_sorted_def argsort_def far_soil_def far_layer_def
      example_soil_def)

lemma two_layer_sorted:
  "top_sorted (example_soil 0 0 [clay, sand 18]) = [0, - 10]"
  "bottom_sorted (example_soil 0 0 [clay, sand 18]) = [- 10, - 20]"
  by (simp_all add: top_sorted_def bottom_sorted_def argsort_def sand_def clay_def example_soil_def)

lemma fold_err_inv:
  assumes step: "\<And>s x s'. P s \<Longrightarrow> f s x = Inr s' \<Longrightarrow> P s'"
  shows "P s \<Longrightarrow> fold_err f s xs = Inr s' \<Longrightarrow> P s'"
proof (induction xs arbitrary: s)
  case Nil
  then show ?case by simp
next
  case (Cons x xs)
  from Cons.prems(2) obtain s1 where s1: "f s x = Inr s1" and rest: "fold_err f s1 xs = Inr s'"
    by (auto split: sum.splits)
  from step [OF Cons.prems(1) s1] have "P s1" .
  from Cons.IH [OF this rest] show ?case .
qed

lemma py_end_inv:
  "distributed_lateral m \<Longrightarrow> disabled_untouched m st0 st
     \<Longrightarrow> py_end m s layer lm d i st j = Inr st' \<Longrightarrow> disabled_untouched m st0 st'"
  by (auto simp: py_end_def disabled_untouched_def Let_def split: option.splits sum.splits prod.splits)

lemma mt_end_inv:
  "distributed_moment m \<Longrightarrow> disabled_untouched m st0 st
     \<Longrightarrow> mt_end m s layer lm d i st j = Inr st' \<Longrightarrow> disabled_untouched m st0 st'"
  by (auto simp: mt_end_def disabled_untouched_def Let_def split: option.splits sum.splits prod.splits)

lemma Hb_tip_inv:
  "base_shear m \<Longrightarrow> disabled_untouched m st0 st
     \<Longrightarrow> Hb_tip s pb layer lm sig d st = Inr st' \<Longrightarrow> disabled_untouched m st0 st'"
  by (auto simp: Hb_tip_def disabled_untouched_def Let_def split: option.splits sum.splits prod.splits)

lemma Mb_tip_inv:
  "base_moment m \<Longrightarrow> disabled_untouched m st0 st
     \<Longrightarrow> Mb_tip s pb layer lm sig d st = Inr st' \<Longrightarrow> disabled_untouched m st0 st'"
  by (auto simp: Mb_tip_def disabled_untouched_def Let_def split: option.splits sum.splits prod.splits)

lemma pile_width_inv:
  "disabled_untouched m st0 st \<Longrightarrow> disabled_untouched m st0 (st\<lparr>pile_width := w\<rparr>)"
  by (simp add: disabled_untouched_def)

lemma case_sum_Inr:
  "(case x of Inl e \<Rightarrow> Inl e | Inr v \<Rightarrow> f v) = Inr r \<Longrightarrow> \<exists>v. x = Inr v \<and> f v = Inr r"
  by (cases x) simp_all

lemma if_Inr:
  "(if c then x else Inr a) = Inr b \<Longrightarrow> (c \<and> x = Inr b) \<or> (\<not> c \<and> a = b)"
  by (cases c) simp_all

lemma element_springs_inv:
  assumes inv: "disabled_untouched m st0 st"
    and run: "element_springs m s layer lm d st i = Inr st'"
  shows "disabled_untouched m st0 st'"
proof -
  let ?st1 = "st\<lparr>pile_width := Some (Diameter (snd (model_tables m ! i)))\<rparr>"
  have inv1: "disabled_untouched m st0 ?st1"
    using inv by (rule pile_width_inv)
  from run have "\<exists>st2.
      (if fst (spring_signature lm) \<and> distributed_lateral m
       then fold_err (py_end m s layer lm d i) ?st1 [0, 1] else Inr ?st1) = Inr st2
      \<and> (if fst (snd (snd (spring_signature lm))) \<and> distributed_moment m
         then fold_err (mt_end m s layer lm d i) st2 [0, 1] else Inr st2) = Inr st'"
    unfolding element_springs_def Let_def by (rule case_sum_Inr)
  then obtain st2 where
    py_part: "(if fst (spring_signature lm) \<and> distributed_lateral m
               then fold_err (py_end m s layer lm d i) ?st1 [0, 1] else Inr ?st1) = Inr st2"
    and mt_part: "(if fst (snd (snd (spring_signature lm))) \<and> distributed_moment m
               then fold_err (mt_end m s layer lm d i) st2 [0, 1] else Inr st2) = Inr st'"
    by blast
  have inv2: "disabled_untouched m st0 st2"
    using if_Inr [OF py_part]
  proof
    assume a: "(fst (spring_signature lm) \<and> distributed_lateral m)
      \<and> fold_err (py_end m s layer lm d i) ?st1 [0, 1] = Inr st2"
    then have dl: "distributed_lateral m" and run1: "fold_err (py_end m s layer lm d i) ?st1 [0, 1] = Inr st2"
      by blast+
    show ?thesis
      by (rule fold_err_inv [where P = "disabled_untouched m st0", OF _ inv1 run1]) (rule py_end_inv [OF dl])
  next
    assume "\<not> (fst (spring_signature lm) \<and> distributed_lateral m) \<and> ?st1 = st2"
    with inv1 show ?thesis by blast
  qed
  show ?thesis
    using if_Inr [OF mt_part]
  proof
    assume a: "(fst (snd (snd (spring_signature lm))) \<and> distributed_moment m)
      \<and> fold_err (mt_end m s layer lm d i) st2 [0, 1] = Inr st'"
    then have dm: "distributed_moment m" and run2: "fold_err (mt_end m s layer lm d i) st2 [0, 1] = Inr st'"
      by blast+
    show ?thesis
      by (rule fold_err_inv [where P = "disabled_untouched m st0", OF _ inv2 run2]) (rule mt_end_inv [OF dm])
  next
    assume "\<not> (fst (snd (snd (spring_signature lm))) \<and> distributed_moment m) \<and> st2 = st'"
    with inv2 show ?thesis by blast
  qed
qed

lemma tip_springs_inv:
  assumes inv: "disabled_untouched m st0 st"
    and run: "tip_springs m s layer lm d st = Inr st'"
  shows "disabled_untouched m st0 st'"
proof -
  from run have "\<exists>pb. pile_bottom_elevation (model_pile m) = Inr pb
      \<and> (if layer_top layer \<ge> pb \<and> layer_bottom layer \<le> pb then
            (if model_tables m = [] then Inl IndexError
             else
               case (if fst (snd (spring_signature lm)) \<and> base_shear m
                     then Hb_tip s pb layer lm (sigma_v_bottom (fst (last (model_tables m)))) d st
                     else Inr st) of
                 Inl e \<Rightarrow> Inl e
               | Inr st1 \<Rightarrow>
                   if snd (snd (snd (spring_signature lm))) \<and> base_moment m
                   then Mb_tip s pb layer lm (sigma_v_bottom (fst (last (model_tables m)))) d st1
                   else Inr st1)
          else Inr st) = Inr st'"
    unfolding tip_springs_def Let_def by (rule case_sum_Inr)
  then obtain pb where
    body: "(if layer_top layer \<ge> pb \<and> layer_bottom layer \<le> pb then
            (if model_tables m = [] then Inl IndexError
             else
               case (if fst (snd (spring_signature lm)) \<and> base_shear m
                     then Hb_tip s pb layer lm (sigma_v_bottom (fst (last (model_tables m)))) d st
                     else Inr st) of
                 Inl e \<Rightarrow> Inl e
               | Inr st1 \<Rightarrow>
                   if snd (snd (snd (spring_signature lm))) \<and> base_moment m
                   then Mb_tip s pb layer lm (sigma_v_bottom (fst (last (model_tables m)))) d st1
                   else Inr st1)
          else Inr st) = Inr st'"
    by blast
  let ?sig = "sigma_v_bottom (fst (last (model_tables m)))"
  show ?thesis
    using if_Inr [OF body]
  proof
    assume "\<not> (layer_top layer \<ge> pb \<and> layer_bottom layer \<le> pb) \<and> st = st'"
    with inv show ?thesis by blast
  next
    assume a: "(layer_top layer \<ge> pb \<and> layer_bottom layer \<le> pb)
      \<and> (if model_tables m = [] then Inl IndexError
          else
            case (if fst (snd (spring_signature lm)) \<and> base_shear m
                  then Hb_tip s pb layer lm ?sig d st else Inr st) of
              Inl e \<Rightarrow> Inl e
            | Inr st1 \<Rightarrow>
                if snd (snd (snd (spring_signature lm))) \<and> base_moment m
                then Mb_tip s pb layer lm ?sig d st1 else Inr st1) = Inr st'"
    then have ne: "model_tables m \<noteq> []"
      by (cases "model_tables m = []") simp_all
    with a have "(case (if fst (snd (spring_signature lm)) \<and> base_shear m
                  then Hb_tip s pb layer lm ?sig d st else Inr st) of
              Inl e \<Rightarrow> Inl e
            | Inr st1 \<Rightarrow>
                if snd (snd (snd (spring_signature lm))) \<and> base_moment m
                then Mb_tip s pb layer lm ?sig d st1 else Inr st1) = Inr st'"
      by simp
    from case_sum_Inr [OF this] obtain st1 where
      hb_part: "(if fst (snd (spring_signature lm)) \<and> base_shear m
                 then Hb_tip s pb layer lm ?sig d st else Inr st) = Inr st1"
      and mb_part: "(if snd (snd (snd (spring_signature lm))) \<and> base_moment m
                 then Mb_tip s pb layer lm ?sig d st1 else Inr st1) = Inr st'"
      by blast
    have inv1: "disabled_untouched m st0 st1"
      using if_Inr [OF hb_part] inv by (blast intro: Hb_tip_inv)
    show ?thesis
      using if_Inr [OF mb_part] inv1 by (blast intro: Mb_tip_inv)
  qed
qed

lemma layer_springs_inv:
  assumes inv: "disabled_untouched m st0 st"
    and run: "layer_springs m s d st layer = Inr st'"
  shows "disabled_untouched m st0 st'"
proof (cases "lateral_model layer")
  case None
  with run inv show ?thesis by (simp add: layer_springs_def)
next
  case (Some lm)
  with run have "(case fold_err (element_springs m s layer lm d) st
                         (elements_for_layer (model_tables m) layer) of
                    Inl e \<Rightarrow> Inl e
                  | Inr st1 \<Rightarrow> tip_springs m s layer lm d st1) = Inr st'"
    unfolding layer_springs_def Let_def by simp
  from case_sum_Inr [OF this] obtain st1 where
    els: "fold_err (element_springs m s layer lm d) st (elements_for_layer (model_tables m) layer) = Inr st1"
    and tip: "tip_springs m s layer lm d st1 = Inr st'"
    by blast
  have "disabled_untouched m st0 st1"
    by (rule fold_err_inv [where P = "disabled_untouched m st0", OF _ inv els])
      (rule element_springs_inv)
  then show ?thesis using tip by (rule tip_springs_inv)
qed

lemma layer_loop_inv:
  assumes run: "fold_err (layer_springs m s 15) (allocate (element_number m) 15) (layers s) = Inr st"
  shows "(\<not> distributed_lateral m \<longrightarrow>
            py st = zeros [element_number m, 2, 2, 15] \<and> (\<forall>a. Call_py a \<notin> set (calls st)))
       \<and> (\<not> distributed_moment m \<longrightarrow>
            mt st = zeros [element_number m, 2, 2, 15, 15] \<and> (\<forall>a. Call_mt a \<notin> set (calls st)))
       \<and> (\<not> base_shear m \<longrightarrow>
            Hb st = zeros [1, 1, 2, 15] \<and> (\<forall>a. Call_Hb a \<notin> set (calls st)))
       \<and> (\<not> base_moment m \<longrightarrow>
            Mb st = zeros [1, 1, 2, 15] \<and> (\<forall>a. Call_Mb a \<notin> set (calls st)))"
proof -
  let ?st0 = "allocate (element_number m) 15"
  have "disabled_untouched m ?st0 ?st0"
    by (simp add: disabled_untouched_def allocate_def)
  then have "disabled_untouched m ?st0 st"
    by (rule fold_err_inv [where P = "disabled_untouched m ?st0", OF _ _ run, rotated 1])
      (rule layer_springs_inv)
  then show ?thesis
    by (simp add: disabled_untouched_def allocate_def)
qed

lemma create_springs_never_returns:
  "create_springs m \<noteq> Inr st"
  by (simp add: create_springs_def Let_def split: option.splits sum.splits)

lemma example_create_springs:
  "create_springs
     ((example_model False False True False (zeros []) (zeros []))
        \<lparr>model_tables := example_mapper p so x c,
         element_number := length (example_mapper p so x c)\<rparr>)
     = Inl (NameError ''name 'check_springs' is not defined'')"
  by (simp add: create_springs_def layer_springs_def element_springs_def
      tip_springs_def Hb_tip_def tip_args_def elements_for_layer_def
      pile_bottom_elevation_def example_model_def example_lateral_def example_mapper_def
      example_pile_def example_section_def example_soil_def sand_def constant_curve_def
      setitem_def in_bounds_def broadcastable_def allocate_def zeros_def Let_def)

section \<open>Properties of the construction and of the spring assembly\<close>

text \<open>
  C8. The claim: \<open>Pile\<close> construction fails when, after sorting by descending top elevation,
  a section's bottom differs from the next section's top beyond a tolerance, and succeeds
  when all are contiguous within it. The code compares with \<open>!=\<close>: a gap of half a millimetre,
  within the tolerance 0.001 of the soil profile's check, already fails.
\<close>

theorem pile_sections_tolerance_counterexample:
  "\<bar>bottom_elevation (example_section 0 (- 10)) - top_elevation (example_section (- 10 - 1 / 2000) (- 20))\<bar> \<le> 1 / 1000
   \<and> pile_sections_must_not_overlap
        (example_pile [example_section 0 (- 10), example_section (- 10 - 1 / 2000) (- 20)])
      = Inl (SectionsNotConnected 1 0)"
  by (simp add: pile_sections_must_not_overlap_def sorted_sections_def example_pile_def example_section_def)

text \<open>
  C8, as amended. \<open>pile_sections_must_not_overlap\<close> succeeds exactly when every section's top
  elevation equals the bottom elevation of the section before it in the order of descending
  top elevation, and raises the error naming the first pair that does not connect
  otherwise; on success the pile holds its own sections in that order, unchanged.
\<close>

theorem pile_sections_exact:
  "(pile_sections_must_not_overlap p = Inr (p\<lparr>pile_sections := sorted_sections p\<rparr>) \<longleftrightarrow>
      (\<forall>k. Suc k < length (sorted_sections p) \<longrightarrow>
         top_elevation (sorted_sections p ! Suc k) = bottom_elevation (sorted_sections p ! k)))
   \<and> ((\<exists>k. pile_sections_must_not_overlap p = Inl (SectionsNotConnected (Suc k) k)) \<longleftrightarrow>
      \<not> (\<forall>k. Suc k < length (sorted_sections p) \<longrightarrow>
         top_elevation (sorted_sections p ! Suc k) = bottom_elevation (sorted_sections p ! k)))
   \<and> mset (sorted_sections p) = mset (pile_sections p)
   \<and> sorted (map (\<lambda>x. - top_elevation x) (sorted_sections p))"
proof -
  let ?C = "\<forall>k. Suc k < length (sorted_sections p) \<longrightarrow>
         top_elevation (sorted_sections p ! Suc k) = bottom_elevation (sorted_sections p ! k)"
  have ok: "pile_sections_must_not_overlap p = Inr (p\<lparr>pile_sections := sorted_sections p\<rparr>) \<longleftrightarrow> ?C"
  proof (cases "sorted_sections p")
    case Nil
    then show ?thesis by (simp add: pile_sections_must_not_overlap_def)
  next
    case (Cons first rest)
    have "?C \<longleftrightarrow> check_connect 1 first rest = Inr ()"
      unfolding Cons check_connect_Inr by (rule connected_nth)
    then show ?thesis
      by (simp add: pile_sections_must_not_overlap_def Cons split: sum.splits)
  qed
  have bad: "(\<exists>k. pile_sections_must_not_overlap p = Inl (SectionsNotConnected (Suc k) k)) \<longleftrightarrow> \<not> ?C"
  proof
    assume "\<exists>k. pile_sections_must_not_overlap p = Inl (SectionsNotConnected (Suc k) k)"
    with ok show "\<not> ?C" by auto
  next
    assume n: "\<not> ?C"
    with ok have ne: "pile_sections_must_not_overlap p \<noteq> Inr (p\<lparr>pile_sections := sorted_sections p\<rparr>)"
      by simp
    show "\<exists>k. pile_sections_must_not_overlap p = Inl (SectionsNotConnected (Suc k) k)"
    proof (cases "sorted_sections p")
      case Nil
      with ne show ?thesis by (simp add: pile_sections_must_not_overlap_def)
    next
      case (Cons first rest)
      with ne obtain e where e: "check_connect 1 first rest = Inl e"
        by (auto simp: pile_sections_must_not_overlap_def split: sum.splits)
      from check_connect_Inl [OF e] obtain k where "e = SectionsNotConnected (Suc k) k" by auto
      with e Cons show ?thesis
        by (auto simp: pile_sections_must_not_overlap_def)
    qed
  qed
  show ?thesis
    using ok bad by (simp add: sorted_sections_def)
qed

theorem pile_sections_exact_witness:
  "pile_sections_must_not_overlap (example_pile [example_section (- 10) (- 20), example_section 0 (- 10)])
     = Inr (example_pile [example_section 0 (- 10), example_section (- 10) (- 20)])
   \<and> (\<exists>k. pile_sections_must_not_overlap
             (example_pile [example_section (- 10 - 1 / 2000) (- 20), example_section 0 (- 10)])
           = Inl (SectionsNotConnected (Suc k) k))"
proof -
  let ?p = "example_pile [example_section (- 10) (- 20), example_section 0 (- 10)]"
  let ?q = "example_pile [example_section (- 10 - 1 / 2000) (- 20), example_section 0 (- 10)]"
  have sp: "sorted_sections ?p = [example_section 0 (- 10), example_section (- 10) (- 20)]"
    by (simp add: sorted_sections_def example_pile_def example_section_def)
  have "\<forall>k. Suc k < length (sorted_sections ?p) \<longrightarrow>
         top_elevation (sorted_sections ?p ! Suc k) = bottom_elevation (sorted_sections ?p ! k)"
    unfolding sp by (auto simp: example_section_def less_Suc_eq numeral_2_eq_2)
  with pile_sections_exact [of ?p]
  have "pile_sections_must_not_overlap ?p = Inr (?p\<lparr>pile_sections := sorted_sections ?p\<rparr>)"
    by blast
  then have 1: "pile_sections_must_not_overlap ?p
     = Inr (example_pile [example_section 0 (- 10), example_section (- 10) (- 20)])"
    by (simp add: sp) (simp add: example_pile_def)
  have "\<not> (\<forall>k. Suc k < length (sorted_sections ?q) \<longrightarrow>
         top_elevation (sorted_sections ?q ! Suc k) = bottom_elevation (sorted_sections ?q ! k))"
  proof
    assume "\<forall>k. Suc k < length (sorted_sections ?q) \<longrightarrow>
         top_elevation (sorted_sections ?q ! Suc k) = bottom_elevation (sorted_sections ?q ! k)"
    then have "Suc 0 < length (sorted_sections ?q) \<longrightarrow>
         top_elevation (sorted_sections ?q ! Suc 0) = bottom_elevation (sorted_sections ?q ! 0)"
      by blast
    then show False
      unfolding far_sections_sorted by (simp add: example_section_def)
  qed
  with pile_sections_exact [of ?q]
  have 2: "\<exists>k. pile_sections_must_not_overlap ?q = Inl (SectionsNotConnected (Suc k) k)"
    by blast
  from 1 2 show ?thesis by blast
qed

text \<open>
  C9. The claim: \<open>SoilProfile\<close> construction succeeds only if consecutive layers are contiguous
  within 0.001. \<open>math.isclose\<close> also accepts a gap up to \<open>1e-9\<close> times the larger magnitude:
  two layers near elevation \<open>10^7\<close> that are 0.005 apart pass the check.
\<close>

theorem soil_profile_tolerance_counterexample:
  "check_layers_elevations far_soil = Inr far_soil
   \<and> \<bar>top_sorted far_soil ! 1 - bottom_sorted far_soil ! 0\<bar> > 1 / 1000"
  by (simp add: check_layers_elevations_def far_sorted isclose_def)
    (simp add: far_soil_def example_soil_def)

text \<open>
  C9, as amended. \<open>check_layers_elevations\<close> succeeds exactly when there is a layer, the
  topmost layer's top equals \<open>top_elevation\<close>, and each layer's top is within
  \<open>max (1e-9 * max |top| |bottom|) 0.001\<close> of the bottom of the layer above it, in the order of
  descending top elevation; otherwise it raises an error. Where both elevations are at most
  \<open>10^6\<close> in magnitude the tolerance is 0.001.
\<close>

theorem soil_profile_layers_checked:
  "(check_layers_elevations sp = Inr sp \<longleftrightarrow>
      layers sp \<noteq> [] \<and> top_sorted sp ! 0 = soil_top_elevation sp
      \<and> (\<forall>i. Suc i < length (layers sp) \<longrightarrow>
            \<bar>top_sorted sp ! Suc i - bottom_sorted sp ! i\<bar>
              \<le> max (1 / 10 ^ 9 * max \<bar>top_sorted sp ! Suc i\<bar> \<bar>bottom_sorted sp ! i\<bar>) (1 / 1000)))
   \<and> (check_layers_elevations sp \<noteq> Inr sp \<longrightarrow> (\<exists>e. check_layers_elevations sp = Inl e))
   \<and> (\<forall>i. check_layers_elevations sp = Inr sp \<and> Suc i < length (layers sp)
          \<and> \<bar>top_sorted sp ! Suc i\<bar> \<le> 10 ^ 6 \<and> \<bar>bottom_sorted sp ! i\<bar> \<le> 10 ^ 6 \<longrightarrow>
          \<bar>top_sorted sp ! Suc i - bottom_sorted sp ! i\<bar> \<le> 1 / 1000)"
proof -
  have A: "check_layers_elevations sp = Inr sp \<longleftrightarrow>
      layers sp \<noteq> [] \<and> top_sorted sp ! 0 = soil_top_elevation sp
      \<and> (\<forall>i. Suc i < length (layers sp) \<longrightarrow> isclose (top_sorted sp ! Suc i) (bottom_sorted sp ! i) (1 / 1000))"
    by (auto simp: check_layers_elevations_def list_all_upt top_sorted_Nil length_top_sorted
        less_diff_conv)
  have B: "check_layers_elevations sp \<noteq> Inr sp \<longrightarrow> (\<exists>e. check_layers_elevations sp = Inl e)"
    by (simp add: check_layers_elevations_def)
  have C: "\<forall>i. check_layers_elevations sp = Inr sp \<and> Suc i < length (layers sp)
          \<and> \<bar>top_sorted sp ! Suc i\<bar> \<le> 10 ^ 6 \<and> \<bar>bottom_sorted sp ! i\<bar> \<le> 10 ^ 6 \<longrightarrow>
          \<bar>top_sorted sp ! Suc i - bottom_sorted sp ! i\<bar> \<le> 1 / 1000"
    using A isclose_small by blast
  from A B C show ?thesis
    unfolding isclose_def by blast
qed

theorem soil_profile_layers_checked_witness:
  "check_layers_elevations (example_soil 0 0 [clay, sand 18]) = Inr (example_soil 0 0 [clay, sand 18])
   \<and> (\<exists>e. check_layers_elevations (example_soil 1 0 [clay, sand 18]) = Inl e)"
proof -
  let ?sp = "example_soil 0 0 [clay, sand 18]"
  let ?bad = "example_soil 1 0 [clay, sand 18]"
  have l: "layers ?sp = [clay, sand 18]" "soil_top_elevation ?sp = 0"
    by (simp_all add: example_soil_def)
  have "layers ?sp \<noteq> [] \<and> top_sorted ?sp ! 0 = soil_top_elevation ?sp
      \<and> (\<forall>i. Suc i < length (layers ?sp) \<longrightarrow>
            \<bar>top_sorted ?sp ! Suc i - bottom_sorted ?sp ! i\<bar>
              \<le> max (1 / 10 ^ 9 * max \<bar>top_sorted ?sp ! Suc i\<bar> \<bar>bottom_sorted ?sp ! i\<bar>) (1 / 1000))"
    unfolding two_layer_sorted l by (auto simp: less_Suc_eq numeral_2_eq_2)
  with soil_profile_layers_checked [of ?sp] have 1: "check_layers_elevations ?sp = Inr ?sp"
    by blast
  have "check_layers_elevations ?bad \<noteq> Inr ?bad"
    by (simp add: check_layers_elevations_def)
      (simp add: top_sorted_def argsort_def sand_def clay_def example_soil_def)
  with soil_profile_layers_checked [of ?bad] have 2: "\<exists>e. check_layers_elevations ?bad = Inl e"
    by blast
  from 1 2 show ?thesis by blast
qed

text \<open>
  C6. The claim: in every Model built with a spring family disabled, the arrays of that
  family are all zero, with the 15 points, and its spring function is never evaluated. The
  code builds no Model: \<open>model_post_init\<close> never returns. For the model of the concrete pile
  in the sand layer with a lateral model, with the m-t family (and the p-y and Mb families)
  disabled, the layers are visited without an error and the first check of the arrays then
  raises NameError, \<open>check_springs\<close> being bound nowhere.
\<close>

theorem model_post_init_raises:
  "model_post_init get_all_properties m \<noteq> Inr m'
   \<and> model_post_init example_mapper (example_model False False True False (zeros []) (zeros []))
       = Inl (NameError ''name 'check_springs' is not defined'')"
proof -
  have "model_post_init example_mapper (example_model False False True False (zeros []) (zeros []))
       = Inl (NameError ''name 'check_springs' is not defined'')"
    by (simp add: model_post_init_def Let_def example_create_springs)
  moreover have "model_post_init get_all_properties m \<noteq> Inr m'"
    by (simp add: model_post_init_def Let_def create_springs_never_returns split: sum.splits)
  ultimately show ?thesis by blast
qed

text \<open>
  C10. \<open>get_Mb_spring\<close> fills its table from the base-shear array: its result does not
  depend on the base-moment array at all, its values (or its error) are those of
  \<open>get_Hb_spring\<close>, and the rows of a table it returns are the base-shear array reshaped to
  two rows.
\<close>

theorem get_Mb_spring_reads_Hb:
  "get_Mb_spring (m\<lparr>Mb_spring := mb\<rparr>) = get_Mb_spring m
   \<and> (model_soil m \<noteq> None \<longrightarrow>
        map_sum id (map_option VAL) (get_Mb_spring m)
          = map_sum id (map_option VAL) (get_Hb_spring m))
   \<and> (get_Mb_spring m = Inr (Some df) \<longrightarrow>
        reshape (Hb_spring m) 2 (last (shape (Hb_spring m))) = Inr (VAL df))"
  by (auto simp: get_Mb_spring_def get_Hb_spring_def Let_def split: option.splits sum.splits)

theorem get_Mb_spring_reads_Hb_witness:
  "model_soil (example_model True True True True
       \<lparr>shape = [1, 1, 2, 2], data = [5, 5, 6, 6]\<rparr> \<lparr>shape = [1, 1, 2, 2], data = [7, 7, 8, 8]\<rparr>) \<noteq> None
   \<and> map_sum id (map_option VAL) (get_Mb_spring (example_model True True True True
       \<lparr>shape = [1, 1, 2, 2], data = [5, 5, 6, 6]\<rparr> \<lparr>shape = [1, 1, 2, 2], data = [7, 7, 8, 8]\<rparr>))
     = Inr (Some [[5, 5], [6, 6]])
   \<and> map_sum id (map_option VAL) (get_Hb_spring (example_model True True True True
       \<lparr>shape = [1, 1, 2, 2], data = [5, 5, 6, 6]\<rparr> \<lparr>shape = [1, 1, 2, 2], data = [7, 7, 8, 8]\<rparr>))
     = Inr (Some [[5, 5], [6, 6]])"
proof -
  let ?m = "example_model True True True True
       \<lparr>shape = [1, 1, 2, 2], data = [5, 5, 6, 6]\<rparr> \<lparr>shape = [1, 1, 2, 2], data = [7, 7, 8, 8]\<rparr>"
  have soil: "model_soil ?m \<noteq> None"
    by (simp add: example_model_def)
  have hb: "map_sum id (map_option VAL) (get_Hb_spring ?m) = Inr (Some [[5, 5], [6, 6]])"
    by (simp add: get_Hb_spring_def reshape_def pile_bottom_elevation_def example_model_def
        example_pile_def example_section_def upt_rec numeral_2_eq_2)
  from get_Mb_spring_reads_Hb [where m = ?m] soil
  have "map_sum id (map_option VAL) (get_Mb_spring ?m)
          = map_sum id (map_option VAL) (get_Hb_spring ?m)"
    by blast
  with soil hb show ?thesis by simp
qed


end
